theory Spec2Isabelle
  imports Complex_Main "HOL-Library.Monad_Syntax"
begin

section \<open>Numbers\<close>

text \<open>
  The numbers of the TypeScript code are IEEE doubles and those of the GLSL shaders are
  32-bit floats. A finite number is modelled by the real it stands for: rounding, and the
  sign of zero, are not modelled. What is modelled is how the programs leave the finite
  numbers: by a division by zero, and by a result too large for a float. The largest
  float is \<open>flt_max = (2 - 2^-23) * 2^127\<close>; a result whose magnitude reaches
  \<open>flt_ovf = 2^128 - 2^103\<close>, half way from \<open>flt_max\<close> to \<open>2^128\<close>, becomes an
  infinity.
\<close>

definition flt_max :: real where
  "flt_max = 340282346638528859811704183484516925440"

definition flt_ovf :: real where
  "flt_ovf = 340282356779733661637539395458142568448"

text \<open>
  In the lattice generators and in the fragment shader a number is a \<open>real option\<close>,
  where \<open>None\<close> is a value that is not finite. \<open>fdiv\<close> is the division of these
  programs: the quotient is not finite when the divisor is zero (\<open>0 / 0\<close> is NaN and
  \<open>x / 0\<close> an infinity in JavaScript; GLSL leaves the result undefined) and when it is
  too large for a float (the shaders compute in floats, and the arrays of the lattice
  generators are copied into a \<open>Float32Array\<close>).
\<close>

definition fdiv :: "real \<Rightarrow> real \<Rightarrow> real option" where
  "fdiv a b = (if b = 0 \<or> \<bar>a / b\<bar> \<ge> flt_ovf then None else Some (a / b))"

text \<open>
  The vertex shader goes on computing with what a division or an overflow returns, so
  there the values are the finite numbers, the two infinities and NaN, with the
  arithmetic of IEEE 754. \<open>round32\<close> is the float a real result becomes. A zero
  divisor counts as \<open>+0\<close>, the zero that a sum returns.
\<close>

datatype fval = Fin real | PInf | NInf | NaN

definition round32 :: "real \<Rightarrow> fval" where
  "round32 a = (if a \<ge> flt_ovf then PInf else if a \<le> - flt_ovf then NInf else Fin a)"

text \<open>The infinity of a sign; no sign (a product with zero) gives NaN.\<close>

definition signed_inf :: "real \<Rightarrow> fval" where
  "signed_inf k = (if k = 0 then NaN else if k > 0 then PInf else NInf)"

fun sign_of :: "fval \<Rightarrow> real" where
  "sign_of (Fin a) = sgn a"
| "sign_of PInf = 1"
| "sign_of NInf = - 1"
| "sign_of NaN = 0"

fun fadd :: "fval \<Rightarrow> fval \<Rightarrow> fval" where
  "fadd (Fin a) (Fin b) = round32 (a + b)"
| "fadd NaN b = NaN"
| "fadd a NaN = NaN"
| "fadd PInf NInf = NaN"
| "fadd NInf PInf = NaN"
| "fadd PInf b = PInf"
| "fadd NInf b = NInf"
| "fadd a PInf = PInf"
| "fadd a NInf = NInf"

fun fneg :: "fval \<Rightarrow> fval" where
  "fneg (Fin a) = Fin (- a)"
| "fneg PInf = NInf"
| "fneg NInf = PInf"
| "fneg NaN = NaN"

definition fsub :: "fval \<Rightarrow> fval \<Rightarrow> fval" where
  "fsub a b = fadd a (fneg b)"

fun fmul :: "fval \<Rightarrow> fval \<Rightarrow> fval" where
  "fmul (Fin a) (Fin b) = round32 (a * b)"
| "fmul NaN b = NaN"
| "fmul a NaN = NaN"
| "fmul a b = signed_inf (sign_of a * sign_of b)"

fun fquot :: "fval \<Rightarrow> fval \<Rightarrow> fval" where
  "fquot (Fin a) (Fin b) = (if b = 0 then signed_inf (sgn a) else round32 (a / b))"
| "fquot NaN b = NaN"
| "fquot a NaN = NaN"
| "fquot (Fin a) b = Fin 0"
| "fquot a (Fin b) = (if b = 0 then a else signed_inf (sign_of a * sgn b))"
| "fquot a b = NaN"

fun fsin :: "fval \<Rightarrow> fval" where
  "fsin (Fin a) = Fin (sin a)"
| "fsin a = NaN"

fun fsqrt :: "fval \<Rightarrow> fval" where
  "fsqrt (Fin a) = (if a < 0 then NaN else Fin (sqrt a))"
| "fsqrt PInf = PInf"
| "fsqrt a = NaN"

section \<open>GLSL vectors, matrices and built-in functions\<close>


datatype vec3 = Vec3 (x3: real) (y3: real) (z3: real)

datatype vec4 = Vec4 (vx: real) (vy: real) (vz: real) (vw: real)

text \<open>A \<open>mat4\<close> is four columns; \<open>m[i]\<close> of the shader is column \<open>i\<close>.\<close>

datatype mat4 = Mat4 (col0: vec4) (col1: vec4) (col2: vec4) (col3: vec4)

text \<open>\<open>mix(x, y, a)\<close> is \<open>x * (1 - a) + y * a\<close>, on vectors component by component.\<close>

definition mix :: "real \<Rightarrow> real \<Rightarrow> real \<Rightarrow> real" where
  "mix a b t = a * (1 - t) + b * t"

definition mix4 :: "vec4 \<Rightarrow> vec4 \<Rightarrow> real \<Rightarrow> vec4" where
  "mix4 a b t = Vec4 (mix (vx a) (vx b) t) (mix (vy a) (vy b) t)
                     (mix (vz a) (vz b) t) (mix (vw a) (vw b) t)"

definition scale4 :: "vec4 \<Rightarrow> real \<Rightarrow> vec4" where
  "scale4 v k = Vec4 (vx v * k) (vy v * k) (vz v * k) (vw v * k)"

definition add4 :: "vec4 \<Rightarrow> vec4 \<Rightarrow> vec4" where
  "add4 a b = Vec4 (vx a + vx b) (vy a + vy b) (vz a + vz b) (vw a + vw b)"

text \<open>Matrix times column vector: the columns weighted by the components.\<close>

definition mat4_mul_vec4 :: "mat4 \<Rightarrow> vec4 \<Rightarrow> vec4" where
  "mat4_mul_vec4 m v =
     add4 (add4 (add4 (scale4 (col0 m) (vx v)) (scale4 (col1 m) (vy v)))
                (scale4 (col2 m) (vz v)))
          (scale4 (col3 m) (vw v))"



section \<open>The 4D wave vertex shader\<close>

record uniforms =
  u_time :: real
  u_angleXY :: real
  u_angleZW :: real
  u_spread :: real
  u_projectionFactor :: real
  u_colorAnimationSpeed :: real
  u_particleSize :: real
  u_matrix1 :: mat4
  u_matrix2 :: mat4
  u_interpolation :: real

definition rotateXY :: "vec4 \<Rightarrow> real \<Rightarrow> vec4" where
  "rotateXY pos angle =
     (let s = sin angle; c = cos angle
      in Vec4 (c * vx pos - s * vy pos) (s * vx pos + c * vy pos) (vz pos) (vw pos))"

definition rotateZW :: "vec4 \<Rightarrow> real \<Rightarrow> vec4" where
  "rotateZW pos angle =
     (let s = sin angle; c = cos angle
      in Vec4 (vx pos) (vy pos) (c * vz pos - s * vw pos) (s * vz pos + c * vw pos))"

definition mixMatrix :: "mat4 \<Rightarrow> mat4 \<Rightarrow> real \<Rightarrow> mat4" where
  "mixMatrix m1 m2 t =
     Mat4 (mix4 (col0 m1) (col0 m2) t) (mix4 (col1 m1) (col1 m2) t)
          (mix4 (col2 m1) (col2 m2) t) (mix4 (col3 m1) (col3 m2) t)"

text \<open>A \<open>vec3\<close> of float values, and \<open>length\<close> of a \<open>vec4\<close> of float values.\<close>

datatype fvec3 = FVec3 (fx: fval) (fy: fval) (fz: fval)

definition flength4 :: "fval \<Rightarrow> fval \<Rightarrow> fval \<Rightarrow> fval \<Rightarrow> fval" where
  "flength4 a b c d = fsqrt (fadd (fadd (fadd (fmul a a) (fmul b b)) (fmul c c)) (fmul d d))"

text \<open>
  What \<open>main\<close> of the vertex shader computes from the attribute \<open>position4D\<close>: the
  transformed 4D position, the projection denominator, the projected and spread 3D
  position, and the two varyings. \<open>gl_Position\<close> and \<open>gl_PointSize\<close> apply the camera
  matrices of the rendering library to \<open>pos3D\<close> and are not part of the model.

  \<open>main\<close> is modelled in two parts. \<open>vs_shade\<close> is \<open>main\<close> from the projection on, as
  a function of the transformed position \<open>pos4D\<close> that the lines before it have
  produced: it computes with float values, and reads the components of the transformed
  position and the uniforms as the floats these become (\<open>px\<close> to \<open>pw\<close> and the
  \<open>round32\<close> of a uniform). \<open>vs_main\<close> is the whole of \<open>main\<close>: the transform, computed
  over the reals (an overflow inside the transform is not modelled), followed by
  \<open>vs_shade\<close>.
\<close>

record vs_out =
  pos4D :: vec4
  wFactor :: fval
  pos3D :: fvec3
  vColor :: fvec3
  vIntensity :: fval

definition vs_shade :: "uniforms \<Rightarrow> vec4 \<Rightarrow> vs_out" where
  "vs_shade u p3 =
     (let px = round32 (vx p3);
          py = round32 (vy p3);
          pz = round32 (vz p3);
          pw = round32 (vw p3);
          wf = fadd (Fin 1.0) (fmul pw (round32 (u_projectionFactor u)));
          q = FVec3 (fmul (fquot px wf) (round32 (u_spread u)))
                    (fmul (fquot py wf) (round32 (u_spread u)))
                    (fmul (fquot pz wf) (round32 (u_spread u)));
          colorTime = fmul (round32 (u_time u)) (round32 (u_colorAnimationSpeed u));
          col = FVec3
                  (fadd (Fin 0.5) (fmul (Fin 0.5) (fsin (fadd (fmul pw (Fin 2.0)) colorTime))))
                  (fadd (Fin 0.5) (fmul (Fin 0.5) (fsin (fadd (fmul pw (Fin 2.0)) (Fin 2.094)))))
                  (fadd (Fin 0.5) (fmul (Fin 0.5) (fsin (fadd (fmul pw (Fin 2.0)) (Fin 4.189)))));
          dist4D = flength4 px py pz pw
      in \<lparr> pos4D = p3, wFactor = wf, pos3D = q, vColor = col,
           vIntensity =
             fadd (Fin 0.5) (fmul (Fin 0.5) (fsin (fsub (fmul dist4D (Fin 0.3)) colorTime))) \<rparr>)"

definition vs_main :: "uniforms \<Rightarrow> vec4 \<Rightarrow> vs_out" where
  "vs_main u position4D =
     (let p0 = position4D;
          currentMatrix = mixMatrix (u_matrix1 u) (u_matrix2 u) (u_interpolation u);
          p1 = mat4_mul_vec4 currentMatrix p0;
          p2 = rotateXY p1 (u_angleXY u);
          p3 = rotateZW p2 (u_angleZW u)
      in vs_shade u p3)"

section \<open>The 4D lattice and the 3D lattice\<close>

text \<open>
  \<open>for (let i = lo; i < n; i++) acc = body(i, acc)\<close>: the counting loops of the two
  generators, over integers. The loop terminates because \<open>n - i\<close> decreases.
\<close>

function for_range :: "int \<Rightarrow> int \<Rightarrow> (int \<Rightarrow> 'a \<Rightarrow> 'a) \<Rightarrow> 'a \<Rightarrow> 'a" where
  "for_range i n body acc = (if i < n then for_range (i + 1) n body (body i acc) else acc)"
  by pat_completeness auto
termination
  by (relation "measure (\<lambda>(i, n, body, acc). nat (n - i))") auto

declare for_range.simps [simp del]

text \<open>
  \<open>create4DWaveParticles\<close>: the array \<open>positions4D\<close> that becomes the attribute
  \<open>position4D\<close> (four numbers per particle). \<open>gridSize\<close> is \<open>params.gridSize\<close>, an
  integer here. The function has no check on \<open>gridSize\<close>; the quotient
  \<open>x / (gridSize - 1)\<close> is the unchecked division of the language.
\<close>

definition wave_coord :: "int \<Rightarrow> int \<Rightarrow> real option" where
  "wave_coord gridSize i =
     map_option (\<lambda>q. q * 2 - 1) (fdiv (real_of_int i) (real_of_int (gridSize - 1)))"

definition create4DWaveParticles :: "int \<Rightarrow> real option list" where
  "create4DWaveParticles gridSize =
     for_range 0 gridSize (\<lambda>x.
       for_range 0 gridSize (\<lambda>y.
         for_range 0 gridSize (\<lambda>z.
           for_range 0 gridSize (\<lambda>w positions4D.
             (let px = wave_coord gridSize x;
                  py = wave_coord gridSize y;
                  pz = wave_coord gridSize z;
                  pw = wave_coord gridSize w
              in positions4D @ [px, py, pz, pw]))))) []"

text \<open>
  \<open>createIndrasNetParticles\<close>: the array \<open>positions\<close> (three numbers per particle),
  with \<open>spacing = 0.5\<close>.
\<close>

definition indra_coord :: "int \<Rightarrow> int \<Rightarrow> real option" where
  "indra_coord gridSize i =
     map_option (\<lambda>q. (q - 0.5) * real_of_int gridSize * 0.5)
       (fdiv (real_of_int i) (real_of_int (gridSize - 1)))"

definition createIndrasNetParticles :: "int \<Rightarrow> real option list" where
  "createIndrasNetParticles gridSize =
     for_range 0 gridSize (\<lambda>x.
       for_range 0 gridSize (\<lambda>y.
         for_range 0 gridSize (\<lambda>z positions.
           (let px = indra_coord gridSize x;
                py = indra_coord gridSize y;
                pz = indra_coord gridSize z
            in positions @ [px, py, pz])))) []"

section \<open>The fragment shader of Indra's net\<close>





















section \<open>The parameter object and the module state\<close>

text \<open>
  At run time \<open>params\<close> is a JavaScript object, and \<open>Object.assign\<close> writes into it
  whatever an imported document holds, so its properties are modelled with the values
  JavaScript can store there: the JSON values, and \<open>undefined\<close>. An object is a map from
  property names to values; a name outside its domain reads as \<open>undefined\<close>.
\<close>

datatype jsval =
    JUndefined
  | JNull
  | JBool bool
  | JNum real
  | JStr string
  | JArr "jsval list"
  | JObj "(string \<times> jsval) list"

type_synonym jsobject = "string \<Rightarrow> jsval option"

datatype js_error = SyntaxError | TypeError

definition js_get :: "jsobject \<Rightarrow> string \<Rightarrow> jsval" where
  "js_get obj k = (case obj k of None \<Rightarrow> JUndefined | Some v \<Rightarrow> v)"

definition createIdentityMatrix :: jsval where
  "createIdentityMatrix =
     JArr (map JNum [1, 0, 0, 0,
                     0, 1, 0, 0,
                     0, 0, 1, 0,
                     0, 0, 0, 1])"

text \<open>The object literal that initialises \<open>params\<close>.\<close>

definition initial_params :: jsobject where
  "initial_params = map_of
     [(''mode'', JStr ''4d-wave''),
      (''gridSize'', JNum 10),
      (''rotationSpeedXY'', JNum 0.5),
      (''rotationSpeedZW'', JNum 0.5),
      (''rotationActiveXY'', JBool True),
      (''rotationActiveZW'', JBool True),
      (''particleSize'', JNum 0.5),
      (''spread'', JNum 3.0),
      (''colorIntensity'', JNum 1.0),
      (''colorAnimationSpeed'', JNum 0.0),
      (''timeScale'', JNum 1.0),
      (''projectionFactor'', JNum 0.15),
      (''sharpness'', JNum 1.0),
      (''glowIntensity'', JNum 0.5),
      (''blendFactor'', JNum 1.0),
      (''opacity'', JNum 1.0),
      (''blendingMode'', JStr ''Normal''),
      (''depthWrite'', JBool False),
      (''matrix1'', createIdentityMatrix),
      (''matrix2'', createIdentityMatrix),
      (''interpolation'', JNum 0.5),
      (''reflectionStrength'', JNum 2.5),
      (''reflectionRange'', JNum 5.0),
      (''lightIntensity'', JNum 3.0),
      (''lightSpeed'', JNum 0.3)]"

text \<open>Decimal property names of array indices.\<close>

definition digit_name :: "nat \<Rightarrow> char" where
  "digit_name d = ''0123456789'' ! d"

function index_name :: "nat \<Rightarrow> string" where
  "index_name i =
     (if i < 10 then [digit_name i] else index_name (i div 10) @ [digit_name (i mod 10)])"
  by pat_completeness auto
termination
  by (relation "measure id") auto

declare index_name.simps [simp del]

text \<open>
  \<open>a[i]\<close> for a value \<open>a\<close>: reading an index of \<open>null\<close> or \<open>undefined\<close> throws a
  TypeError; an index an array, string or object does not have reads as \<open>undefined\<close>, as
  does any index of a number or a boolean. (A parsed object keeps the last of several
  equal keys.)
\<close>

definition js_index :: "jsval \<Rightarrow> nat \<Rightarrow> js_error + jsval" where
  "js_index a i =
     (case a of
        JUndefined \<Rightarrow> Inl TypeError
      | JNull \<Rightarrow> Inl TypeError
      | JBool b \<Rightarrow> Inr JUndefined
      | JNum r \<Rightarrow> Inr JUndefined
      | JStr s \<Rightarrow> Inr (if i < length s then JStr [s ! i] else JUndefined)
      | JArr xs \<Rightarrow> Inr (if i < length xs then xs ! i else JUndefined)
      | JObj kvs \<Rightarrow>
          Inr (case map_of (rev kvs) (index_name i) of
                 None \<Rightarrow> JUndefined
               | Some v \<Rightarrow> v))"

text \<open>
  \<open>Matrix4.fromArray(array)\<close> of the rendering library copies \<open>array[0]\<close> to
  \<open>array[15]\<close> into the sixteen elements of the matrix, in this order. The first read
  throws when the argument is \<open>null\<close> or \<open>undefined\<close>, before any element is written.
\<close>

fun read_elements :: "jsval \<Rightarrow> nat list \<Rightarrow> js_error + jsval list" where
  "read_elements a [] = Inr []"
| "read_elements a (i # is) =
     (case js_index a i of
        Inl e \<Rightarrow> Inl e
      | Inr v \<Rightarrow> (case read_elements a is of Inl e \<Rightarrow> Inl e | Inr vs \<Rightarrow> Inr (v # vs)))"

definition Matrix4_fromArray :: "jsval \<Rightarrow> js_error + jsval list" where
  "Matrix4_fromArray a = read_elements a [0..<16]"

text \<open>
  The elements of a matrix uniform are in column-major order. A matrix of the shader
  has sixteen numbers; elements that are not numbers give no matrix of reals.
\<close>

fun num_of :: "jsval \<Rightarrow> real option" where
  "num_of (JNum r) = Some r"
| "num_of _ = None"

definition vec4_of_elements :: "jsval list \<Rightarrow> vec4 option" where
  "vec4_of_elements es =
     (case map num_of es of
        [Some a, Some b, Some c, Some d] \<Rightarrow> Some (Vec4 a b c d)
      | _ \<Rightarrow> None)"

definition mat4_of_elements :: "jsval list \<Rightarrow> mat4 option" where
  "mat4_of_elements es =
     (if length es \<noteq> 16 then None
      else do {
        c0 \<leftarrow> vec4_of_elements (take 4 es);
        c1 \<leftarrow> vec4_of_elements (take 4 (drop 4 es));
        c2 \<leftarrow> vec4_of_elements (take 4 (drop 8 es));
        c3 \<leftarrow> vec4_of_elements (take 4 (drop 12 es));
        Some (Mat4 c0 c1 c2 c3)
      })"

definition identity_mat4 :: mat4 where
  "identity_mat4 = Mat4 (Vec4 1 0 0 0) (Vec4 0 1 0 0) (Vec4 0 0 1 0) (Vec4 0 0 0 1)"

text \<open>
  The module state: \<open>params\<close>, the variables \<open>time\<close>, \<open>angleXY\<close> and \<open>angleZW\<close>, and
  \<open>material.uniforms\<close> as a map from the name of a uniform to its \<open>value\<close> (a matrix
  uniform holds its sixteen elements), and the three light positions. The scene graph, the geometry buffers and the GUI
  objects are not part of the state.
\<close>

record sim_state =
  params :: jsobject
  time :: real
  angleXY :: real
  angleZW :: real
  lightPositions :: "vec3 \<times> vec3 \<times> vec3"
  material_uniforms :: jsobject

text \<open>
  A statement completes normally, or throws; either way it leaves a state behind.
\<close>

datatype completion = Normal sim_state | Throws js_error sim_state

definition and_then :: "completion \<Rightarrow> (sim_state \<Rightarrow> completion) \<Rightarrow> completion" where
  "and_then c f = (case c of Normal s \<Rightarrow> f s | Throws e s \<Rightarrow> Throws e s)"

text \<open>
  \<open>if (material.uniforms.NAME) material.uniforms.NAME.value.fromArray(params.NAME)\<close>
\<close>

definition update_matrix_uniform :: "string \<Rightarrow> sim_state \<Rightarrow> completion" where
  "update_matrix_uniform name s =
     (if material_uniforms s name = None then Normal s
      else (case Matrix4_fromArray (js_get (params s) name) of
              Inl e \<Rightarrow> Throws e s
            | Inr es \<Rightarrow> Normal (s\<lparr>material_uniforms := (material_uniforms s)(name \<mapsto> JArr es)\<rparr>)))"

text \<open>
  \<open>if (material.uniforms.NAME) material.uniforms.NAME.value = params.NAME\<close>
\<close>

definition update_scalar_uniform :: "string \<Rightarrow> sim_state \<Rightarrow> completion" where
  "update_scalar_uniform name s =
     (if material_uniforms s name = None then Normal s
      else Normal (s\<lparr>material_uniforms := (material_uniforms s)(name \<mapsto> js_get (params s) name)\<rparr>))"

definition update_transform_uniforms :: "sim_state \<Rightarrow> completion" where
  "update_transform_uniforms s =
     and_then (update_matrix_uniform ''matrix1'' s) (\<lambda>s.
     and_then (update_matrix_uniform ''matrix2'' s) (\<lambda>s.
     update_scalar_uniform ''interpolation'' s))"

text \<open>\<open>resetRotation\<close>.\<close>

definition resetRotation :: "sim_state \<Rightarrow> completion" where
  "resetRotation s =
     (let s = s\<lparr>angleXY := 0\<rparr>;
          s = s\<lparr>angleZW := 0\<rparr>;
          s = s\<lparr>params := (params s)(''matrix1'' \<mapsto> createIdentityMatrix)\<rparr>;
          s = s\<lparr>params := (params s)(''matrix2'' \<mapsto> createIdentityMatrix)\<rparr>;
          s = s\<lparr>params := (params s)(''interpolation'' \<mapsto> JNum 0.5)\<rparr>
      in update_transform_uniforms s)"

section \<open>Importing parameters\<close>

text \<open>
  \<open>Object.assign(target, source)\<close> writes every own enumerable property of \<open>source\<close>
  into \<open>target\<close>: the members of an object, the indices of an array or of a string,
  nothing for the other values. An assignment to \<open>__proto__\<close> goes to the prototype and
  creates no property.
\<close>

definition own_properties :: "jsval \<Rightarrow> (string \<times> jsval) list" where
  "own_properties v =
     (case v of
        JObj kvs \<Rightarrow> kvs
      | JArr xs \<Rightarrow> zip (map index_name [0..<length xs]) xs
      | JStr s \<Rightarrow> zip (map index_name [0..<length s]) (map (\<lambda>c. JStr [c]) s)
      | _ \<Rightarrow> [])"

definition assign_property :: "string \<times> jsval \<Rightarrow> jsobject \<Rightarrow> jsobject" where
  "assign_property kv target =
     (if fst kv = ''__proto__'' then target else target(fst kv \<mapsto> snd kv))"

definition Object_assign :: "jsobject \<Rightarrow> jsval \<Rightarrow> jsobject" where
  "Object_assign target source = fold assign_property (own_properties source) target"

text \<open>
  The uniforms of the material that \<open>create4DWaveParticles\<close> builds, and of the one that
  \<open>createIndrasNetParticles\<close> builds.
\<close>

definition wave_uniforms :: "jsobject \<Rightarrow> js_error + jsobject" where
  "wave_uniforms p =
     (case Matrix4_fromArray (js_get p ''matrix1'') of
        Inl e \<Rightarrow> Inl e
      | Inr m1 \<Rightarrow>
          (case Matrix4_fromArray (js_get p ''matrix2'') of
             Inl e \<Rightarrow> Inl e
           | Inr m2 \<Rightarrow>
               Inr (map_of
                 [(''time'', JNum 0),
                  (''angleXY'', JNum 0),
                  (''angleZW'', JNum 0),
                  (''particleSize'', js_get p ''particleSize''),
                  (''spread'', js_get p ''spread''),
                  (''colorIntensity'', js_get p ''colorIntensity''),
                  (''colorAnimationSpeed'', js_get p ''colorAnimationSpeed''),
                  (''projectionFactor'', js_get p ''projectionFactor''),
                  (''sharpness'', js_get p ''sharpness''),
                  (''glowIntensity'', js_get p ''glowIntensity''),
                  (''blendFactor'', js_get p ''blendFactor''),
                  (''opacity'', js_get p ''opacity''),
                  (''matrix1'', JArr m1),
                  (''matrix2'', JArr m2),
                  (''interpolation'', js_get p ''interpolation'')])))"

definition js_of_vec3 :: "vec3 \<Rightarrow> jsval" where
  "js_of_vec3 v = JArr [JNum (x3 v), JNum (y3 v), JNum (z3 v)]"

definition indra_uniforms :: "jsobject \<Rightarrow> vec3 \<times> vec3 \<times> vec3 \<Rightarrow> jsobject" where
  "indra_uniforms p lights =
     (case lights of (light1, light2, light3) \<Rightarrow>
        map_of
          [(''time'', JNum 0),
           (''lightPosition1'', js_of_vec3 light1),
           (''lightPosition2'', js_of_vec3 light2),
           (''lightPosition3'', js_of_vec3 light3),
           (''lightColor1'', js_of_vec3 (Vec3 1.0 0.2 0.2)),
           (''lightColor2'', js_of_vec3 (Vec3 0.2 1.0 0.2)),
           (''lightColor3'', js_of_vec3 (Vec3 0.2 0.2 1.0)),
           (''reflectionStrength'', js_get p ''reflectionStrength''),
           (''reflectionRange'', js_get p ''reflectionRange''),
           (''lightIntensity'', js_get p ''lightIntensity''),
           (''sharpness'', js_get p ''sharpness''),
           (''opacity'', js_get p ''opacity'')])"

text \<open>
  \<open>recreateParticleSystem\<close>, by its effect on the state: \<open>createParticleSystem\<close>
  replaces the material by the one of \<open>params.mode\<close>. When building the new material
  throws, \<open>material\<close> has not been assigned.
\<close>

definition recreateParticleSystem :: "sim_state \<Rightarrow> completion" where
  "recreateParticleSystem s =
     (if js_get (params s) ''mode'' = JStr ''4d-wave''
      then (case wave_uniforms (params s) of
              Inl e \<Rightarrow> Throws e s
            | Inr u \<Rightarrow> Normal (s\<lparr>material_uniforms := u\<rparr>))
      else Normal (s\<lparr>material_uniforms := indra_uniforms (params s) (lightPositions s)\<rparr>))"

text \<open>
  The \<open>onload\<close> handler of \<open>importParameters\<close>. \<open>JSON.parse\<close> is the engine's: its
  result on the text of the file is the argument \<open>parsed\<close>, \<open>None\<close> when it throws a
  SyntaxError. The handler reports with \<open>console.log\<close> after a normal completion of the
  \<open>try\<close> block, and with \<open>console.error\<close> and \<open>alert\<close> from the \<open>catch\<close> block.
  The last step of the \<open>try\<close> block rebuilds the GUI (\<open>gui.destroy(); createGUI()\<close>):
  it acts on the objects of the GUI library only, and whether the library throws on the
  parameters it is given is the argument \<open>rebuild_gui\<close>.
\<close>

datatype import_report = ParametersImported | ErrorImporting js_error

definition gui_step :: "(jsobject \<Rightarrow> js_error option) \<Rightarrow> sim_state \<Rightarrow> completion" where
  "gui_step rebuild_gui s =
     (case rebuild_gui (params s) of None \<Rightarrow> Normal s | Some e \<Rightarrow> Throws e s)"

definition importParameters_onload ::
  "(jsobject \<Rightarrow> js_error option) \<Rightarrow> jsval option \<Rightarrow> sim_state \<Rightarrow> import_report \<times> sim_state" where
  "importParameters_onload rebuild_gui parsed s =
     (let attempt =
            (case parsed of
               None \<Rightarrow> Throws SyntaxError s
             | Some data \<Rightarrow>
                 (let s = s\<lparr>params := Object_assign (params s) data\<rparr>
                  in and_then (update_transform_uniforms s) (\<lambda>s.
                     and_then (recreateParticleSystem s) (gui_step rebuild_gui))))
      in case attempt of
           Normal s' \<Rightarrow> (ParametersImported, s')
         | Throws e s' \<Rightarrow> (ErrorImporting e, s'))"

text \<open>The state after \<open>init\<close>: the initial parameters and the material of the 4D wave.\<close>

definition initial_state :: sim_state where
  "initial_state =
     \<lparr> params = initial_params, time = 0, angleXY = 0, angleZW = 0,
       lightPositions = (Vec3 0 0 0, Vec3 0 0 0, Vec3 0 0 0),
       material_uniforms =
         (case wave_uniforms initial_params of Inl e \<Rightarrow> Map.empty | Inr u \<Rightarrow> u) \<rparr>"

section \<open>The transform as the specification words it\<close>

text \<open>
  The specification describes the transform by the entries of the matrices: the
  effective matrix is the entry-wise linear interpolation of the two matrices, it is
  multiplied with the base coordinate, and a Givens rotation is applied to the pair
  \<open>(x, y)\<close> and then to the pair \<open>(z, w)\<close>. These definitions follow those words; the
  entry in row \<open>r\<close> and column \<open>c\<close> of a \<open>mat4\<close> is component \<open>r\<close> of column \<open>c\<close>.
\<close>

definition comp4 :: "vec4 \<Rightarrow> nat \<Rightarrow> real" where
  "comp4 v i = (if i = 0 then vx v else if i = 1 then vy v else if i = 2 then vz v else vw v)"

definition column :: "mat4 \<Rightarrow> nat \<Rightarrow> vec4" where
  "column m j =
     (if j = 0 then col0 m else if j = 1 then col1 m else if j = 2 then col2 m else col3 m)"

definition entry :: "mat4 \<Rightarrow> nat \<Rightarrow> nat \<Rightarrow> real" where
  "entry m r c = comp4 (column m c) r"

definition lerp :: "real \<Rightarrow> real \<Rightarrow> real \<Rightarrow> real" where
  "lerp a b t = (1 - t) * a + t * b"

definition spec_lerp_matrix :: "mat4 \<Rightarrow> mat4 \<Rightarrow> real \<Rightarrow> nat \<Rightarrow> nat \<Rightarrow> real" where
  "spec_lerp_matrix t1 t2 interp r c = lerp (entry t1 r c) (entry t2 r c) interp"

definition spec_apply :: "(nat \<Rightarrow> nat \<Rightarrow> real) \<Rightarrow> vec4 \<Rightarrow> vec4" where
  "spec_apply M v =
     Vec4 (\<Sum>c<4. M 0 c * comp4 v c) (\<Sum>c<4. M 1 c * comp4 v c)
          (\<Sum>c<4. M 2 c * comp4 v c) (\<Sum>c<4. M 3 c * comp4 v c)"

definition givens :: "real \<Rightarrow> real \<times> real \<Rightarrow> real \<times> real" where
  "givens a p = (cos a * fst p - sin a * snd p, sin a * fst p + cos a * snd p)"

definition spec_rotate_xy :: "vec4 \<Rightarrow> real \<Rightarrow> vec4" where
  "spec_rotate_xy p a = (case givens a (vx p, vy p) of (x', y') \<Rightarrow> Vec4 x' y' (vz p) (vw p))"

definition spec_rotate_zw :: "vec4 \<Rightarrow> real \<Rightarrow> vec4" where
  "spec_rotate_zw p a = (case givens a (vz p, vw p) of (z', w') \<Rightarrow> Vec4 (vx p) (vy p) z' w')"

definition spec_transform :: "vec4 \<Rightarrow> mat4 \<Rightarrow> mat4 \<Rightarrow> real \<Rightarrow> real \<Rightarrow> real \<Rightarrow> vec4" where
  "spec_transform base t1 t2 interp aXY aZW =
     spec_rotate_zw (spec_rotate_xy (spec_apply (spec_lerp_matrix t1 t2 interp) base) aXY) aZW"

section \<open>Auxiliary definitions\<close>

text \<open>
  The attribute \<open>position4D\<close> has item size 4: particle \<open>i\<close> is the four numbers from
  index \<open>4 * i\<close> on. \<open>wave_point\<close> is what one pass of the innermost loop pushes, and
  the blocks are what one pass of each enclosing loop pushes.
\<close>

definition wave_point :: "int \<Rightarrow> int \<Rightarrow> int \<Rightarrow> int \<Rightarrow> int \<Rightarrow> real option list" where
  "wave_point n x y z w = [wave_coord n x, wave_coord n y, wave_coord n z, wave_coord n w]"

definition blockW :: "int \<Rightarrow> nat \<Rightarrow> nat \<Rightarrow> nat \<Rightarrow> real option list" where
  "blockW n x y z = concat (map (\<lambda>w. wave_point n (int x) (int y) (int z) (int w)) [0..<nat n])"

definition blockZ :: "int \<Rightarrow> nat \<Rightarrow> nat \<Rightarrow> real option list" where
  "blockZ n x y = concat (map (\<lambda>z. blockW n x y z) [0..<nat n])"

definition blockY :: "int \<Rightarrow> nat \<Rightarrow> real option list" where
  "blockY n x = concat (map (\<lambda>y. blockZ n x y) [0..<nat n])"

definition item4 :: "'a list \<Rightarrow> nat \<Rightarrow> 'a list" where
  "item4 buf i = take 4 (drop (4 * i) buf)"

text \<open>What one pass of the innermost loop of \<open>createIndrasNetParticles\<close> pushes.\<close>

definition indra_point :: "int \<Rightarrow> int \<Rightarrow> int \<Rightarrow> int \<Rightarrow> real option list" where
  "indra_point n x y z = [indra_coord n x, indra_coord n y, indra_coord n z]"

text \<open>The state a completion leaves behind.\<close>

fun state_of :: "completion \<Rightarrow> sim_state" where
  "state_of (Normal s) = s"
| "state_of (Throws e s) = s"



fun in_unit :: "fval \<Rightarrow> bool" where
  "in_unit (Fin a) = (0 \<le> a \<and> a \<le> 1)"
| "in_unit a = False"

fun unit_or_nan :: "fval \<Rightarrow> bool" where
  "unit_or_nan (Fin a) = (0 \<le> a \<and> a \<le> 1)"
| "unit_or_nan NaN = True"
| "unit_or_nan a = False"


section \<open>Concrete inputs\<close>

text \<open>
  Uniforms an imported document can set: both matrices scale the \<open>w\<close> axis by \<open>2e38\<close>,
  a finite float.
\<close>

definition overflow_uniforms :: uniforms where
  "overflow_uniforms =
     \<lparr> u_time = 0, u_angleXY = 0, u_angleZW = 0, u_spread = 3, u_projectionFactor = 0.15,
       u_colorAnimationSpeed = 0, u_particleSize = 0.5,
       u_matrix1 = Mat4 (Vec4 1 0 0 0) (Vec4 0 1 0 0) (Vec4 0 0 1 0) (Vec4 0 0 0 (2 * 10 ^ 38)),
       u_matrix2 = Mat4 (Vec4 1 0 0 0) (Vec4 0 1 0 0) (Vec4 0 0 1 0) (Vec4 0 0 0 (2 * 10 ^ 38)),
       u_interpolation = 0.5 \<rparr>"

text \<open>
  Uniforms the GUI can set: identity matrices, both angles zero, projection factor 1.
\<close>

definition pole_uniforms :: uniforms where
  "pole_uniforms =
     \<lparr> u_time = 0, u_angleXY = 0, u_angleZW = 0, u_spread = 3, u_projectionFactor = 1,
       u_colorAnimationSpeed = 0, u_particleSize = 0.5, u_matrix1 = identity_mat4,
       u_matrix2 = identity_mat4, u_interpolation = 0.5 \<rparr>"

text \<open>
  A state after some animation and editing: both angles advanced, \<open>matrix1\<close> scaled,
  the interpolation fraction at 1.
\<close>

definition spun_state :: sim_state where
  "spun_state =
     initial_state
       \<lparr> params := initial_params
            (''matrix1'' \<mapsto> JArr (map JNum [2, 0, 0, 0, 0, 2, 0, 0, 0, 0, 2, 0, 0, 0, 0, 2]),
             ''interpolation'' \<mapsto> JNum 1),
         time := 4, angleXY := 1.5, angleZW := 0.25 \<rparr>"

text \<open>A GUI library that accepts every parameter set.\<close>

definition gui_accepts :: "jsobject \<Rightarrow> js_error option" where
  "gui_accepts p = None"

text \<open>
  A document that parses as JSON and has \<open>null\<close> where the matrix should be.
\<close>

definition bad_document :: jsval where
  "bad_document = JObj [(''gridSize'', JNum 5), (''matrix1'', JNull)]"


section \<open>Planar rotations\<close>

lemma rotateXY_add: "rotateXY (rotateXY p a) b = rotateXY p (a + b)"
  by (simp add: rotateXY_def Let_def sin_add cos_add algebra_simps)

lemma rotateZW_add: "rotateZW (rotateZW p a) b = rotateZW p (a + b)"
  by (simp add: rotateZW_def Let_def sin_add cos_add algebra_simps)

text \<open>
  C9. Rotating a 4D point by \<open>theta\<close> and then by \<open>phi\<close> in the same plane (XY or ZW) is
  the single rotation by \<open>theta + phi\<close> in that plane; in particular two quarter turns
  are one half turn.
\<close>

theorem rotation_additive:
  "rotateXY (rotateXY p theta) phi = rotateXY p (theta + phi) \<and>
   rotateZW (rotateZW p theta) phi = rotateZW p (theta + phi) \<and>
   rotateXY (rotateXY p (pi / 2)) (pi / 2) = rotateXY p pi \<and>
   rotateZW (rotateZW p (pi / 2)) (pi / 2) = rotateZW p pi"
proof -
  have "pi / 2 + pi / 2 = pi" by simp
  then show ?thesis
    using rotateXY_add [of p "pi / 2" "pi / 2"] rotateZW_add [of p "pi / 2" "pi / 2"]
    by (simp only: rotateXY_add rotateZW_add simp_thms)
qed

section \<open>The transform of the vertex shader\<close>

lemma pos4D_vs_main:
  "pos4D (vs_main u b) =
     rotateZW
       (rotateXY
          (mat4_mul_vec4 (mixMatrix (u_matrix1 u) (u_matrix2 u) (u_interpolation u)) b)
          (u_angleXY u))
       (u_angleZW u)"
  by (simp add: vs_main_def vs_shade_def Let_def)

lemma rotateXY_spec: "rotateXY p a = spec_rotate_xy p a"
  by (simp add: rotateXY_def spec_rotate_xy_def givens_def Let_def)

lemma rotateZW_spec: "rotateZW p a = spec_rotate_zw p a"
  by (simp add: rotateZW_def spec_rotate_zw_def givens_def Let_def)

lemma sum_lessThan_4: "(\<Sum>c<4. f c) = f 0 + f 1 + f 2 + (f (3::nat) :: real)"
  by (simp add: eval_nat_numeral lessThan_Suc)

lemma mul_mix_spec:
  "mat4_mul_vec4 (mixMatrix m1 m2 t) v = spec_apply (spec_lerp_matrix m1 m2 t) v"
  by (simp add: mat4_mul_vec4_def mixMatrix_def mix4_def mix_def add4_def scale4_def
      spec_apply_def spec_lerp_matrix_def lerp_def entry_def column_def comp4_def
      sum_lessThan_4 algebra_simps)

text \<open>
  C2. For every base coordinate the shader computes the transformed point as
  \<open>rotateZW (rotateXY (M * base) angleXY) angleZW\<close> with \<open>M\<close> the mix of the two
  matrices, and this is the transform of the specification: the entry-wise linear
  interpolation of \<open>matrix1\<close> and \<open>matrix2\<close> applied to the base coordinate, then the
  Givens rotation of the pair \<open>(x, y)\<close> that leaves \<open>(z, w)\<close> untouched, then the Givens
  rotation of the pair \<open>(z, w)\<close> that leaves \<open>(x, y)\<close> untouched.
\<close>

theorem transform_order:
  "pos4D (vs_main u base) =
     rotateZW
       (rotateXY
          (mat4_mul_vec4 (mixMatrix (u_matrix1 u) (u_matrix2 u) (u_interpolation u)) base)
          (u_angleXY u))
       (u_angleZW u) \<and>
   pos4D (vs_main u base) =
     spec_transform base (u_matrix1 u) (u_matrix2 u) (u_interpolation u)
       (u_angleXY u) (u_angleZW u)"
  by (simp add: pos4D_vs_main spec_transform_def mul_mix_spec rotateXY_spec rotateZW_spec)

lemma mix_same: "mix a a t = a"
  by (simp add: mix_def algebra_simps)

lemma mixMatrix_same: "mixMatrix m m t = m"
  by (cases m) (simp add: mixMatrix_def mix4_def mix_same)

lemma identity_mul: "mat4_mul_vec4 identity_mat4 v = v"
  by (cases v) (simp add: mat4_mul_vec4_def identity_mat4_def add4_def scale4_def)

lemma rotateXY_zero: "rotateXY p 0 = p"
  by (cases p) (simp add: rotateXY_def)

lemma rotateZW_zero: "rotateZW p 0 = p"
  by (cases p) (simp add: rotateZW_def)

lemma fromArray_identity:
  "map_sum id mat4_of_elements (Matrix4_fromArray createIdentityMatrix) =
     Inr (Some identity_mat4)"
  apply (simp add: Matrix4_fromArray_def createIdentityMatrix_def upt_rec js_index_def)
  apply (simp add: mat4_of_elements_def vec4_of_elements_def identity_mat4_def)
  done

text \<open>
  C8. The array of \<open>createIdentityMatrix\<close> is loaded as the identity matrix, and with
  both matrices the identity and both angles zero the transformed point is the base
  coordinate, for every base coordinate and every interpolation fraction.
\<close>

theorem identity_transform:
  "map_sum id mat4_of_elements (Matrix4_fromArray createIdentityMatrix) =
     Inr (Some identity_mat4) \<and>
   pos4D (vs_main (u\<lparr>u_matrix1 := identity_mat4, u_matrix2 := identity_mat4,
                       u_interpolation := t, u_angleXY := 0, u_angleZW := 0\<rparr>) base) = base"
  by (simp add: fromArray_identity pos4D_vs_main mixMatrix_same identity_mul
      rotateXY_zero rotateZW_zero)

section \<open>Float arithmetic without overflow\<close>

lemma flt_max_below: "flt_max < flt_ovf"
  by (simp add: flt_max_def flt_ovf_def)

lemma round32_below: "\<bar>a\<bar> < flt_ovf \<Longrightarrow> round32 a = Fin a"
  by (simp add: round32_def abs_less_iff not_le)

lemma fadd_below: "\<bar>a + b\<bar> < flt_ovf \<Longrightarrow> fadd (Fin a) (Fin b) = Fin (a + b)"
  by (simp add: round32_below)

lemma fmul_below: "\<bar>a * b\<bar> < flt_ovf \<Longrightarrow> fmul (Fin a) (Fin b) = Fin (a * b)"
  by (simp add: round32_below)

lemma round32_fin: "\<bar>a\<bar> \<le> flt_max \<Longrightarrow> round32 a = Fin a"
  using flt_max_below by (intro round32_below) linarith

lemma fadd_fin: "\<bar>a + b\<bar> \<le> flt_max \<Longrightarrow> fadd (Fin a) (Fin b) = Fin (a + b)"
  using flt_max_below by (intro fadd_below) linarith

lemma fmul_fin: "\<bar>a * b\<bar> \<le> flt_max \<Longrightarrow> fmul (Fin a) (Fin b) = Fin (a * b)"
  using flt_max_below by (intro fmul_below) linarith

section \<open>The colour field\<close>

lemma half_sin_bounds: "0 \<le> 1 / 2 + sin a / 2 \<and> 1 / 2 + sin a / 2 \<le> 1" for a :: real
  using sin_ge_minus_one [of a] sin_le_one [of a] by linarith

lemma channel_fin:
  "fadd (Fin (1 / 2)) (fmul (Fin (1 / 2)) (fsin (Fin a))) = Fin (1 / 2 + 1 / 2 * sin a)"
proof -
  have f: "1 \<le> flt_max" by (simp add: flt_max_def)
  have "\<bar>1 / 2 * sin a\<bar> = \<bar>sin a\<bar> / 2" by (simp add: abs_mult)
  with abs_sin_le_one [of a] f have m: "\<bar>1 / 2 * sin a\<bar> \<le> flt_max" by linarith
  from half_sin_bounds [of a] f have n: "\<bar>1 / 2 + 1 / 2 * sin a\<bar> \<le> flt_max" by simp
  have 1: "fsin (Fin a) = Fin (sin a)" by simp
  have 2: "fmul (Fin (1 / 2)) (Fin (sin a)) = Fin (1 / 2 * sin a)" by (rule fmul_fin [OF m])
  have 3: "fadd (Fin (1 / 2)) (Fin (1 / 2 * sin a)) = Fin (1 / 2 + 1 / 2 * sin a)"
    by (rule fadd_fin [OF n])
  show ?thesis unfolding 1 2 3 ..
qed

lemma channel_in_unit: "in_unit (fadd (Fin (1 / 2)) (fmul (Fin (1 / 2)) (fsin (Fin a))))"
  unfolding channel_fin using half_sin_bounds [of a] by simp

lemma channel_shape: "unit_or_nan (fadd (Fin (1 / 2)) (fmul (Fin (1 / 2)) (fsin v)))"
proof (cases v)
  case (Fin a)
  show ?thesis unfolding Fin channel_fin using half_sin_bounds [of a] by simp
qed simp_all

lemma vColor_vs_shade:
  "vColor (vs_shade u p) =
     FVec3
       (fadd (Fin (1 / 2)) (fmul (Fin (1 / 2))
          (fsin (fadd (fmul (round32 (vw p)) (Fin 2))
                   (fmul (round32 (u_time u)) (round32 (u_colorAnimationSpeed u)))))))
       (fadd (Fin (1 / 2)) (fmul (Fin (1 / 2))
          (fsin (fadd (fmul (round32 (vw p)) (Fin 2)) (Fin (2094 / 1000))))))
       (fadd (Fin (1 / 2)) (fmul (Fin (1 / 2))
          (fsin (fadd (fmul (round32 (vw p)) (Fin 2)) (Fin (4189 / 1000))))))"
  by (simp add: vs_shade_def Let_def)

lemma vIntensity_vs_shade:
  "vIntensity (vs_shade u p) =
     fadd (Fin (1 / 2)) (fmul (Fin (1 / 2))
       (fsin (fsub (fmul (flength4 (round32 (vx p))
                            (round32 (vy p))
                            (round32 (vz p))
                            (round32 (vw p))) (Fin (3 / 10)))
                (fmul (round32 (u_time u)) (round32 (u_colorAnimationSpeed u))))))"
  by (simp add: vs_shade_def Let_def)

lemma color_shape:
  "unit_or_nan (fx (vColor (vs_shade u p))) \<and> unit_or_nan (fy (vColor (vs_shade u p))) \<and>
   unit_or_nan (fz (vColor (vs_shade u p))) \<and> unit_or_nan (vIntensity (vs_shade u p))"
  unfolding vColor_vs_shade vIntensity_vs_shade fvec3.sel
  by (intro conjI channel_shape)

lemma flt_max_large: "3 * 10 ^ 38 \<le> flt_max"
  by (simp add: flt_max_def)

lemma colorTime_fin:
  assumes "\<bar>t\<bar> \<le> flt_max" "\<bar>k\<bar> \<le> flt_max" "\<bar>t * k\<bar> \<le> 10 ^ 38"
  shows "fmul (round32 t) (round32 k) = Fin (t * k)"
proof -
  from assms(3) flt_max_large have "\<bar>t * k\<bar> \<le> flt_max" by linarith
  then show ?thesis
    unfolding round32_fin [OF assms(1)] round32_fin [OF assms(2)] by (rule fmul_fin)
qed

lemma phase_fin:
  assumes "\<bar>w\<bar> \<le> 10 ^ 38" "\<bar>c\<bar> \<le> 10 ^ 38"
  shows "fadd (fmul (round32 w) (Fin 2)) (Fin c) = Fin (w * 2 + c)"
proof -
  from assms(1) flt_max_large have w: "\<bar>w\<bar> \<le> flt_max" by linarith
  from assms(1) flt_max_large have m: "\<bar>w * 2\<bar> \<le> flt_max" by (simp add: abs_mult) 
  from assms flt_max_large have a: "\<bar>w * 2 + c\<bar> \<le> flt_max" by linarith
  show ?thesis
    unfolding round32_fin [OF w] fmul_fin [OF m] by (rule fadd_fin [OF a])
qed

lemma small_in_range: "\<bar>a\<bar> \<le> 10 ^ 18 \<Longrightarrow> \<bar>a\<bar> \<le> flt_max"
  by (simp add: flt_max_def)

lemma nonneg_in_range: "0 \<le> v \<Longrightarrow> v \<le> 4 * 10 ^ 36 \<Longrightarrow> \<bar>v\<bar> \<le> flt_max"
  by (simp add: flt_max_def)

lemma square_bound:
  assumes "\<bar>a :: real\<bar> \<le> 10 ^ 18"
  shows "0 \<le> a * a \<and> a * a \<le> 10 ^ 36"
proof -
  from assms have "\<bar>a\<bar> \<le> \<bar>10 ^ 18 :: real\<bar>" by simp
  then have "a\<^sup>2 \<le> (10 ^ 18)\<^sup>2" by (simp only: abs_le_square_iff)
  then show ?thesis by (simp add: power2_eq_square)
qed

lemma fsqrt_fin: "0 \<le> v \<Longrightarrow> fsqrt (Fin v) = Fin (sqrt v)"
  by (simp add: not_less)

lemma flength4_fin:
  assumes "\<bar>a\<bar> \<le> 10 ^ 18" "\<bar>b\<bar> \<le> 10 ^ 18" "\<bar>c\<bar> \<le> 10 ^ 18" "\<bar>d\<bar> \<le> 10 ^ 18"
  shows "flength4 (round32 a) (round32 b) (round32 c) (round32 d) =
           Fin (sqrt (a * a + b * b + c * c + d * d)) \<and>
         0 \<le> sqrt (a * a + b * b + c * c + d * d) \<and>
         sqrt (a * a + b * b + c * c + d * d) \<le> 2 * 10 ^ 18"
proof -
  note r = small_in_range [OF assms(1)] small_in_range [OF assms(2)]
    small_in_range [OF assms(3)] small_in_range [OF assms(4)]
  note sa = square_bound [OF assms(1)] and sb = square_bound [OF assms(2)]
    and sc = square_bound [OF assms(3)] and sd = square_bound [OF assms(4)]
  from sa have 1: "\<bar>a * a\<bar> \<le> flt_max" by (intro nonneg_in_range) linarith+
  from sb have 2: "\<bar>b * b\<bar> \<le> flt_max" by (intro nonneg_in_range) linarith+
  from sc have 3: "\<bar>c * c\<bar> \<le> flt_max" by (intro nonneg_in_range) linarith+
  from sd have 4: "\<bar>d * d\<bar> \<le> flt_max" by (intro nonneg_in_range) linarith+
  from sa sb have 5: "\<bar>a * a + b * b\<bar> \<le> flt_max"
    by (intro nonneg_in_range) linarith+
  from sa sb sc have 6: "\<bar>a * a + b * b + c * c\<bar> \<le> flt_max"
    by (intro nonneg_in_range) linarith+
  from sa sb sc sd have 7: "\<bar>a * a + b * b + c * c + d * d\<bar> \<le> flt_max"
    by (intro nonneg_in_range) linarith+
  from sa sb sc sd have nn: "0 \<le> a * a + b * b + c * c + d * d" by linarith
  from sa sb sc sd have "a * a + b * b + c * c + d * d \<le> 4 * 10 ^ 36" by linarith
  then have "a * a + b * b + c * c + d * d \<le> (2 * 10 ^ 18)\<^sup>2"
    by (simp add: power2_eq_square)
  then have le: "sqrt (a * a + b * b + c * c + d * d) \<le> 2 * 10 ^ 18"
    by (intro real_le_lsqrt) simp_all
  have ge: "0 \<le> sqrt (a * a + b * b + c * c + d * d)"
    using nn by (simp only: real_sqrt_ge_zero)
  have "flength4 (round32 a) (round32 b) (round32 c) (round32 d) =
      Fin (sqrt (a * a + b * b + c * c + d * d))"
    unfolding flength4_def round32_fin [OF r(1)] round32_fin [OF r(2)] round32_fin [OF r(3)]
      round32_fin [OF r(4)] fmul_fin [OF 1] fmul_fin [OF 2] fmul_fin [OF 3] fmul_fin [OF 4]
      fadd_fin [OF 5] fadd_fin [OF 6] fadd_fin [OF 7] fsqrt_fin [OF nn] ..
  with ge le show ?thesis by (intro conjI)
qed

lemma scaled_length_in_range:
  "0 \<le> l \<Longrightarrow> l \<le> 2 * 10 ^ 18 \<Longrightarrow> \<bar>k\<bar> \<le> 10 ^ 38 \<Longrightarrow>
   \<bar>l * (3 / 10)\<bar> \<le> flt_max \<and> \<bar>l * (3 / 10) + - k\<bar> \<le> flt_max"
  by (simp add: flt_max_def abs_le_iff)

lemma intensity_phase_fin:
  assumes "\<bar>a\<bar> \<le> 10 ^ 18" "\<bar>b\<bar> \<le> 10 ^ 18" "\<bar>c\<bar> \<le> 10 ^ 18" "\<bar>d\<bar> \<le> 10 ^ 18"
    "\<bar>k\<bar> \<le> 10 ^ 38"
  shows "fsub (fmul (flength4 (round32 a) (round32 b) (round32 c) (round32 d)) (Fin (3 / 10)))
           (Fin k) =
         Fin (sqrt (a * a + b * b + c * c + d * d) * (3 / 10) + - k)"
proof -
  let ?l = "sqrt (a * a + b * b + c * c + d * d)"
  note f = flength4_fin [OF assms(1-4)]
  note l = f [THEN conjunct1]
  note rng = scaled_length_in_range [OF f [THEN conjunct2, THEN conjunct1]
      f [THEN conjunct2, THEN conjunct2] assms(5)]
  show ?thesis
    unfolding l fsub_def fneg.simps fmul_fin [OF rng [THEN conjunct1]]
    by (rule fadd_fin [OF rng [THEN conjunct2]])
qed

lemma vs_main_shade: "vs_main u b = vs_shade u (pos4D (vs_main u b))"
  by (simp add: vs_main_def vs_shade_def Let_def)

lemma pos4D_shade: "pos4D (vs_shade u p) = p"
  by (simp add: vs_shade_def Let_def)



lemma pos4D_overflow:
  "pos4D (vs_main overflow_uniforms (Vec4 1 1 1 1)) = Vec4 1 1 1 (2 * 10 ^ 38)"
  by (simp add: pos4D_vs_main overflow_uniforms_def mixMatrix_same rotateXY_def rotateZW_def
      mat4_mul_vec4_def add4_def scale4_def)

text \<open>
  C3, amended. For every transformed coordinate \<open>p\<close> and all uniforms, each of the three
  channels of \<open>vColor\<close> and the intensity \<open>vIntensity\<close> is a number between 0 and 1 or is
  NaN, never a number outside that interval and never an infinity. They are numbers between 0 and 1
  whenever the phases are computed without overflow: for finite time and colour animation
  speed with \<open>|time * colorAnimationSpeed| \<le> 1e38\<close>, the channels when
  \<open>|p.w| \<le> 1e38\<close>, and the intensity when every component of the transformed coordinate
  \<open>p\<close> is at most \<open>1e18\<close> in magnitude.
\<close>

theorem color_unit_or_nan:
  "unit_or_nan (fx (vColor (vs_shade u p))) \<and> unit_or_nan (fy (vColor (vs_shade u p))) \<and>
   unit_or_nan (fz (vColor (vs_shade u p))) \<and> unit_or_nan (vIntensity (vs_shade u p)) \<and>
   (\<bar>u_time u\<bar> \<le> flt_max \<and> \<bar>u_colorAnimationSpeed u\<bar> \<le> flt_max \<and>
    \<bar>u_time u * u_colorAnimationSpeed u\<bar> \<le> 10 ^ 38 \<longrightarrow>
      (\<bar>vw p\<bar> \<le> 10 ^ 38 \<longrightarrow>
         in_unit (fx (vColor (vs_shade u p))) \<and> in_unit (fy (vColor (vs_shade u p))) \<and>
         in_unit (fz (vColor (vs_shade u p)))) \<and>
      (\<bar>vx p\<bar> \<le> 10 ^ 18 \<and> \<bar>vy p\<bar> \<le> 10 ^ 18 \<and>
       \<bar>vz p\<bar> \<le> 10 ^ 18 \<and> \<bar>vw p\<bar> \<le> 10 ^ 18 \<longrightarrow>
         in_unit (vIntensity (vs_shade u p))))"
proof -
  let ?p = "p"
  have chan: "in_unit (fx (vColor (vs_shade u p))) \<and> in_unit (fy (vColor (vs_shade u p))) \<and>
         in_unit (fz (vColor (vs_shade u p)))"
    if t: "\<bar>u_time u\<bar> \<le> flt_max" "\<bar>u_colorAnimationSpeed u\<bar> \<le> flt_max"
      "\<bar>u_time u * u_colorAnimationSpeed u\<bar> \<le> 10 ^ 38"
      and w: "\<bar>vw ?p\<bar> \<le> 10 ^ 38"
  proof -
    have g: "\<bar>2094 / 1000 :: real\<bar> \<le> 10 ^ 38" "\<bar>4189 / 1000 :: real\<bar> \<le> 10 ^ 38"
      by simp_all
    show ?thesis
      unfolding vColor_vs_shade fvec3.sel colorTime_fin [OF t]
        phase_fin [OF w t(3)] phase_fin [OF w g(1)] phase_fin [OF w g(2)]
      by (intro conjI channel_in_unit)
  qed
  have inten: "in_unit (vIntensity (vs_shade u p))"
    if t: "\<bar>u_time u\<bar> \<le> flt_max" "\<bar>u_colorAnimationSpeed u\<bar> \<le> flt_max"
      "\<bar>u_time u * u_colorAnimationSpeed u\<bar> \<le> 10 ^ 38"
      and p: "\<bar>vx ?p\<bar> \<le> 10 ^ 18" "\<bar>vy ?p\<bar> \<le> 10 ^ 18" "\<bar>vz ?p\<bar> \<le> 10 ^ 18"
        "\<bar>vw ?p\<bar> \<le> 10 ^ 18"
    unfolding vIntensity_vs_shade colorTime_fin [OF t] intensity_phase_fin [OF p t(3)]
    by (rule channel_in_unit)
  from color_shape [of u p] chan inten show ?thesis by blast
qed

lemma overflow_w: "round32 (2 * 10 ^ 38) = Fin (2 * 10 ^ 38) \<and> fmul (Fin (2 * 10 ^ 38)) (Fin 2) = PInf
    \<and> fmul (Fin (2 * 10 ^ 38)) (Fin (2 * 10 ^ 38)) = PInf"
  by (simp add: round32_def flt_ovf_def)

text \<open>
  C3, as stated, fails. With both matrices scaling the \<open>w\<close> axis by \<open>2e38\<close>, the lattice
  point \<open>(1, 1, 1, 1)\<close> is transformed to \<open>(1, 1, 1, 2e38)\<close>, a finite coordinate. The
  shader doubles \<open>p.w\<close>, which overflows to infinity, and squares it for the length; the
  sine of an infinity is NaN, so no channel and no intensity lies between 0 and 1.
\<close>

theorem color_overflow_counterexample:
  "pos4D (vs_main overflow_uniforms (Vec4 1 1 1 1)) = Vec4 1 1 1 (2 * 10 ^ 38) \<and>
   \<bar>2 * 10 ^ 38\<bar> \<le> flt_max \<and>
   vColor (vs_main overflow_uniforms (Vec4 1 1 1 1)) = FVec3 NaN NaN NaN \<and>
   vIntensity (vs_main overflow_uniforms (Vec4 1 1 1 1)) = NaN"
proof -
  have t: "u_time overflow_uniforms = 0" "u_colorAnimationSpeed overflow_uniforms = 0"
    by (simp_all add: overflow_uniforms_def)
  have m: "vs_main overflow_uniforms (Vec4 1 1 1 1) =
      vs_shade overflow_uniforms (Vec4 1 1 1 (2 * 10 ^ 38))"
    using vs_main_shade [of overflow_uniforms "Vec4 1 1 1 1"] by (simp add: pos4D_overflow)
  have c: "vColor (vs_main overflow_uniforms (Vec4 1 1 1 1)) = FVec3 NaN NaN NaN"
    unfolding m vColor_vs_shade vec4.sel t
    by (simp add: overflow_w) (simp add: round32_def flt_ovf_def)
  have i: "vIntensity (vs_main overflow_uniforms (Vec4 1 1 1 1)) = NaN"
    unfolding m vIntensity_vs_shade vec4.sel t flength4_def
    by (simp add: overflow_w fsub_def) (simp add: round32_def flt_ovf_def signed_inf_def)
  have "\<bar>2 * 10 ^ 38 :: real\<bar> \<le> flt_max"
    by (simp add: flt_max_def)
  with c i pos4D_overflow show ?thesis by simp
qed

theorem color_unit_or_nan_witness:
  "in_unit (fx (vColor (vs_shade pole_uniforms (Vec4 1 1 1 (- 1))))) \<and>
   in_unit (fy (vColor (vs_shade pole_uniforms (Vec4 1 1 1 (- 1))))) \<and>
   in_unit (fz (vColor (vs_shade pole_uniforms (Vec4 1 1 1 (- 1))))) \<and>
   in_unit (vIntensity (vs_shade pole_uniforms (Vec4 1 1 1 (- 1))))"
proof -
  let ?b = "Vec4 1 1 1 (- 1)"
  have t: "\<bar>u_time pole_uniforms\<bar> \<le> flt_max \<and> \<bar>u_colorAnimationSpeed pole_uniforms\<bar> \<le> flt_max \<and>
    \<bar>u_time pole_uniforms * u_colorAnimationSpeed pole_uniforms\<bar> \<le> 10 ^ 38"
    by (simp add: pole_uniforms_def flt_max_def)
  have w: "\<bar>vw ?b\<bar> \<le> 10 ^ 38"
    by simp
  have p: "\<bar>vx ?b\<bar> \<le> 10 ^ 18 \<and> \<bar>vy ?b\<bar> \<le> 10 ^ 18 \<and> \<bar>vz ?b\<bar> \<le> 10 ^ 18 \<and> \<bar>vw ?b\<bar> \<le> 10 ^ 18"
    by simp
  note c = color_unit_or_nan [of pole_uniforms ?b, THEN conjunct2, THEN conjunct2,
      THEN conjunct2, THEN conjunct2, rule_format, OF t]
  from c [THEN conjunct1, rule_format, OF w] c [THEN conjunct2, rule_format, OF p]
  show ?thesis by (simp only: simp_thms)
qed

section \<open>The perspective division\<close>












section \<open>The 4D lattice\<close>

lemma for_range_append:
  "(\<And>j a. body j a = a @ f j) \<Longrightarrow>
   for_range i n body acc = acc @ concat (map f [i..n - 1])"
proof (induction i n body acc rule: for_range.induct)
  case (1 i n body acc)
  show ?case
  proof (cases "i < n")
    case True
    then have "[i..n - 1] = i # [i + 1..n - 1]"
      by (simp add: upto_rec1)
    with True 1 show ?thesis
      by (simp add: for_range.simps [of i n])
  next
    case False
    then show ?thesis
      by (simp add: for_range.simps [of i n])
  qed
qed

lemma create4D_concat:
  "create4DWaveParticles n =
     concat (map (\<lambda>x. concat (map (\<lambda>y. concat (map (\<lambda>z. concat (map (\<lambda>w.
       wave_point n x y z w) [0..n - 1])) [0..n - 1])) [0..n - 1])) [0..n - 1])"
  unfolding create4DWaveParticles_def wave_point_def Let_def
  by (simp add: for_range_append)

lemma upto_as_upt: "[0..n - 1] = map int [0..<nat n]"
  by (rule nth_equalityI) auto

lemma create4D_nat:
  "create4DWaveParticles n =
     concat (map (\<lambda>x. concat (map (\<lambda>y. concat (map (\<lambda>z. concat (map (\<lambda>w.
       wave_point n (int x) (int y) (int z) (int w))
         [0..<nat n])) [0..<nat n])) [0..<nat n])) [0..<nat n])"
  by (simp add: create4D_concat upto_as_upt comp_def)

lemma length_concat_uniform:
  "(\<And>x. x \<in> set xs \<Longrightarrow> length (f x) = m) \<Longrightarrow> length (concat (map f xs)) = length xs * m"
  by (induction xs) simp_all

lemma nth_concat_uniform:
  "(\<And>x. x \<in> set xs \<Longrightarrow> length (f x) = m) \<Longrightarrow> k < length xs \<Longrightarrow> j < m \<Longrightarrow>
   concat (map f xs) ! (k * m + j) = f (xs ! k) ! j"
proof (induction xs arbitrary: k)
  case Nil
  then show ?case by simp
next
  case (Cons a xs)
  show ?case
  proof (cases k)
    case 0
    with Cons.prems show ?thesis by (simp add: nth_append)
  next
    case (Suc k')
    with Cons.prems have "concat (map f xs) ! (k' * m + j) = f (xs ! k') ! j"
      by (intro Cons.IH) auto
    with Suc Cons.prems show ?thesis
      by (simp add: nth_append add.assoc)
  qed
qed

lemma idx_bound: "k < N \<Longrightarrow> j < m \<Longrightarrow> k * m + j < N * (m::nat)"
proof -
  assume a: "k < N" "j < m"
  then have "k * m + j < Suc k * m" by simp
  also from a have "\<dots> \<le> N * m" by (intro mult_le_mono1) simp
  finally show ?thesis .
qed

lemma create4D_blocks: "create4DWaveParticles n = concat (map (blockY n) [0..<nat n])"
  by (simp add: create4D_nat blockY_def [abs_def] blockZ_def [abs_def] blockW_def [abs_def])

lemma length_wave_point: "length (wave_point n x y z w) = 4"
  by (simp add: wave_point_def)

lemma length_blockW: "length (blockW n x y z) = nat n * 4"
  unfolding blockW_def by (subst length_concat_uniform [where m = 4]) (simp_all add: length_wave_point)

lemma length_blockZ: "length (blockZ n x y) = nat n * (nat n * 4)"
  unfolding blockZ_def by (subst length_concat_uniform [where m = "nat n * 4"]) (simp_all add: length_blockW)

lemma length_blockY: "length (blockY n x) = nat n * (nat n * (nat n * 4))"
  unfolding blockY_def
  by (subst length_concat_uniform [where m = "nat n * (nat n * 4)"]) (simp_all add: length_blockZ)

lemma length_create4D: "length (create4DWaveParticles n) = 4 * nat n ^ 4"
  unfolding create4D_blocks
  by (subst length_concat_uniform [where m = "nat n * (nat n * (nat n * 4))"])
     (simp_all add: length_blockY power4_eq_xxxx)

lemma nth_blockW:
  "w < nat n \<Longrightarrow> c < 4 \<Longrightarrow> blockW n x y z ! (w * 4 + c) = wave_point n (int x) (int y) (int z) (int w) ! c"
  unfolding blockW_def
  by (subst nth_concat_uniform [where m = 4]) (simp_all add: length_wave_point)

lemma nth_blockZ:
  "z < nat n \<Longrightarrow> w < nat n \<Longrightarrow> c < 4 \<Longrightarrow>
   blockZ n x y ! (z * (nat n * 4) + (w * 4 + c)) = wave_point n (int x) (int y) (int z) (int w) ! c"
  unfolding blockZ_def
  by (subst nth_concat_uniform [where m = "nat n * 4"])
     (simp_all add: length_blockW nth_blockW idx_bound)

lemma nth_blockY:
  "y < nat n \<Longrightarrow> z < nat n \<Longrightarrow> w < nat n \<Longrightarrow> c < 4 \<Longrightarrow>
   blockY n x ! (y * (nat n * (nat n * 4)) + (z * (nat n * 4) + (w * 4 + c))) =
     wave_point n (int x) (int y) (int z) (int w) ! c"
  unfolding blockY_def
  by (subst nth_concat_uniform [where m = "nat n * (nat n * 4)"])
     (simp_all add: length_blockZ nth_blockZ idx_bound)

lemma nth_create4D_aux:
  "x < nat n \<Longrightarrow> y < nat n \<Longrightarrow> z < nat n \<Longrightarrow> w < nat n \<Longrightarrow> c < 4 \<Longrightarrow>
   create4DWaveParticles n !
     (x * (nat n * (nat n * (nat n * 4))) + (y * (nat n * (nat n * 4)) + (z * (nat n * 4) + (w * 4 + c)))) =
     wave_point n (int x) (int y) (int z) (int w) ! c"
  unfolding create4D_blocks
  by (subst nth_concat_uniform [where m = "nat n * (nat n * (nat n * 4))"])
     (simp_all add: length_blockY nth_blockY idx_bound)

lemma nth_create4D:
  assumes "x < nat n" "y < nat n" "z < nat n" "w < nat n" "c < 4"
  shows "create4DWaveParticles n ! (4 * (((x * nat n + y) * nat n + z) * nat n + w) + c) =
     wave_point n (int x) (int y) (int z) (int w) ! c"
proof -
  have eq: "4 * (((x * nat n + y) * nat n + z) * nat n + w) + c =
     x * (nat n * (nat n * (nat n * 4))) + (y * (nat n * (nat n * 4)) + (z * (nat n * 4) + (w * 4 + c)))"
    by (simp add: algebra_simps)
  show ?thesis unfolding eq by (rule nth_create4D_aux [OF assms])
qed

lemma flt_ovf_gt_one: "1 < flt_ovf"
  by (simp add: flt_ovf_def)

lemma fdiv_unit:
  assumes "b \<noteq> 0" "\<bar>a / b\<bar> \<le> 1"
  shows "fdiv a b = Some (a / b)"
proof -
  from assms(2) flt_ovf_gt_one have "\<not> \<bar>a / b\<bar> \<ge> flt_ovf" by linarith
  with assms(1) show ?thesis by (simp add: fdiv_def)
qed

lemma lattice_quotient:
  assumes "2 \<le> n" "0 \<le> k" "k < n"
  shows "0 \<le> real_of_int k / real_of_int (n - 1) \<and> real_of_int k / real_of_int (n - 1) \<le> 1"
proof -
  from assms have pos: "0 < real_of_int (n - 1)" by simp
  from assms have "real_of_int k \<le> real_of_int (n - 1)" by simp
  with pos have le: "real_of_int k / real_of_int (n - 1) \<le> 1" by (simp add: divide_le_eq)
  from assms pos have ge: "0 \<le> real_of_int k / real_of_int (n - 1)" by simp
  from ge le show ?thesis by (rule conjI)
qed

lemma wave_coord_value:
  assumes "2 \<le> n" "0 \<le> k" "k < n"
  shows "wave_coord n k = Some (real_of_int k / real_of_int (n - 1) * 2 - 1)"
proof -
  from assms(1) have nz: "real_of_int (n - 1) \<noteq> 0" by simp
  from lattice_quotient [OF assms]
  have "\<bar>real_of_int k / real_of_int (n - 1)\<bar> \<le> 1" by (metis abs_of_nonneg)
  from fdiv_unit [OF nz this] show ?thesis by (simp add: wave_coord_def)
qed

lemma wave_coord_value_nat:
  assumes "2 \<le> n" "x < nat n"
  shows "wave_coord n (int x) = Some (real x / real_of_int (n - 1) * 2 - 1)"
proof -
  from assms have "0 \<le> int x" "int x < n" by simp_all
  from wave_coord_value [OF assms(1) this] show ?thesis by simp
qed

lemma unit_to_symmetric: "0 \<le> q \<Longrightarrow> q \<le> 1 \<Longrightarrow> - 1 \<le> q * 2 - 1 \<and> q * 2 - 1 \<le> (1::real)"
  by simp

lemma wave_coord_range:
  assumes "2 \<le> n" "0 \<le> k" "k < n"
  shows "- 1 \<le> real_of_int k / real_of_int (n - 1) * 2 - 1 \<and>
         real_of_int k / real_of_int (n - 1) * 2 - 1 \<le> 1"
  using lattice_quotient [OF assms] by (intro unit_to_symmetric) simp_all

lemma create4D_range:
  assumes "2 \<le> n" "v \<in> set (create4DWaveParticles n)"
  shows "\<exists>r. v = Some r \<and> - 1 \<le> r \<and> r \<le> 1"
proof -
  from assms(2) obtain k where k: "k < nat n" "v = wave_coord n (int k)"
    by (auto simp add: create4D_nat wave_point_def)
  with assms(1) have r: "0 \<le> int k" "int k < n" by simp_all
  from k wave_coord_value [OF assms(1) r] wave_coord_range [OF assms(1) r]
  show ?thesis by simp
qed

lemma item4_create4D:
  assumes "x < nat n" "y < nat n" "z < nat n" "w < nat n"
  shows "item4 (create4DWaveParticles n) (((x * nat n + y) * nat n + z) * nat n + w) =
         wave_point n (int x) (int y) (int z) (int w)"
proof (rule nth_equalityI)
  let ?i = "((x * nat n + y) * nat n + z) * nat n + w"
  have "x * nat n + y < nat n * nat n"
    using assms by (intro idx_bound)
  then have "(x * nat n + y) * nat n + z < nat n * nat n * nat n"
    using assms by (intro idx_bound)
  then have "?i < nat n * nat n * nat n * nat n"
    using assms by (intro idx_bound)
  then have "4 * ?i + 4 \<le> 4 * nat n ^ 4"
    by (simp add: power4_eq_xxxx)
  then show len: "length (item4 (create4DWaveParticles n) ?i) =
      length (wave_point n (int x) (int y) (int z) (int w))"
    by (simp add: item4_def length_create4D length_wave_point)
  fix c assume "c < length (item4 (create4DWaveParticles n) ?i)"
  with len have c: "c < 4" by (simp add: length_wave_point)
  with \<open>4 * ?i + 4 \<le> 4 * nat n ^ 4\<close>
  have "item4 (create4DWaveParticles n) ?i ! c = create4DWaveParticles n ! (4 * ?i + c)"
    by (simp add: item4_def length_create4D)
  with nth_create4D [OF assms c]
  show "item4 (create4DWaveParticles n) ?i ! c = wave_point n (int x) (int y) (int z) (int w) ! c"
    by simp
qed

text \<open>
  C1. For every integer resolution \<open>n \<ge> 2\<close> the generator of the 4D mode produces
  \<open>n ^ 4\<close> coordinates of four components, every component is a finite number between
  \<open>-1\<close> and \<open>1\<close>, and the particle with index \<open>((x * n + y) * n + z) * n + w\<close> is the
  lattice point of the loop indices \<open>x, y, z, w\<close> (nested in this order, \<open>x\<close> outermost):
  the enumeration is a fixed function of \<open>n\<close>.
\<close>

theorem lattice_4d:
  "2 \<le> n \<Longrightarrow>
     length (create4DWaveParticles n) = 4 * nat n ^ 4 \<and>
     (\<forall>v \<in> set (create4DWaveParticles n). \<exists>r. v = Some r \<and> - 1 \<le> r \<and> r \<le> 1) \<and>
     (\<forall>x<nat n. \<forall>y<nat n. \<forall>z<nat n. \<forall>w<nat n.
        item4 (create4DWaveParticles n) (((x * nat n + y) * nat n + z) * nat n + w) =
          [Some (real x / real_of_int (n - 1) * 2 - 1),
           Some (real y / real_of_int (n - 1) * 2 - 1),
           Some (real z / real_of_int (n - 1) * 2 - 1),
           Some (real w / real_of_int (n - 1) * 2 - 1)])"
  by (simp add: length_create4D create4D_range item4_create4D wave_point_def wave_coord_value_nat)

theorem lattice_4d_witness:
  "(2::int) \<le> 2 \<and>
   length (create4DWaveParticles 2) = 64 \<and>
   item4 (create4DWaveParticles 2) 14 = [Some 1, Some 1, Some 1, Some (- 1)]"
proof -
  have h: "(2::int) \<le> 2" by simp
  note t = lattice_4d [OF h]
  from t have "length (create4DWaveParticles 2) = 4 * nat 2 ^ 4" by blast
  moreover from t have
    "\<forall>x<nat 2. \<forall>y<nat 2. \<forall>z<nat 2. \<forall>w<nat 2.
        item4 (create4DWaveParticles 2) (((x * nat 2 + y) * nat 2 + z) * nat 2 + w) =
          [Some (real x / real_of_int (2 - 1) * 2 - 1),
           Some (real y / real_of_int (2 - 1) * 2 - 1),
           Some (real z / real_of_int (2 - 1) * 2 - 1),
           Some (real w / real_of_int (2 - 1) * 2 - 1)]"
    by blast
  from this [rule_format, of 1 1 1 0]
  have "item4 (create4DWaveParticles 2) 14 = [Some 1, Some 1, Some 1, Some (- 1)]"
    by simp
  ultimately show ?thesis by simp
qed

section \<open>Resolutions below two\<close>

lemma createIndra_nat:
  "createIndrasNetParticles n =
     concat (map (\<lambda>x. concat (map (\<lambda>y. concat (map (\<lambda>z.
       indra_point n (int x) (int y) (int z)) [0..<nat n])) [0..<nat n])) [0..<nat n])"
  unfolding createIndrasNetParticles_def indra_point_def Let_def
  by (simp add: for_range_append upto_as_upt comp_def)

lemma create4D_nonpositive: "n \<le> 0 \<Longrightarrow> create4DWaveParticles n = []"
  by (simp add: create4D_nat)

lemma createIndra_nonpositive: "n \<le> 0 \<Longrightarrow> createIndrasNetParticles n = []"
  by (simp add: createIndra_nat)

lemma create4D_one: "create4DWaveParticles 1 = [None, None, None, None]"
  by (simp add: create4D_nat wave_point_def wave_coord_def fdiv_def)

lemma createIndra_one: "createIndrasNetParticles 1 = [None, None, None]"
  by (simp add: createIndra_nat indra_point_def indra_coord_def fdiv_def)

text \<open>
  C6, as stated, fails. With resolution 1 neither generator rejects or clamps: each runs
  its loops once, divides \<open>0\<close> by \<open>gridSize - 1 = 0\<close>, and emits one particle whose
  coordinates are not finite numbers.
\<close>

theorem lattice_small_counterexample:
  "create4DWaveParticles 1 = [None, None, None, None] \<and>
   createIndrasNetParticles 1 = [None, None, None] \<and>
   fdiv (real_of_int 0) (real_of_int (1 - 1)) = None"
  by (simp add: create4D_one createIndra_one fdiv_def)

text \<open>
  C6, amended. The generators have no check on the resolution. For \<open>n \<le> 0\<close> the loops
  do not run: the lattice is empty and no division is performed. For \<open>n = 1\<close> the
  division by \<open>n - 1 = 0\<close> is performed and the single particle that is emitted has
  coordinates that are not finite.
\<close>

theorem lattice_small_unchecked:
  "(n \<le> 0 \<longrightarrow> create4DWaveParticles n = [] \<and> createIndrasNetParticles n = []) \<and>
   (n = 1 \<longrightarrow> create4DWaveParticles n = replicate 4 None \<and>
               createIndrasNetParticles n = replicate 3 None \<and>
               wave_coord n 0 = None \<and> indra_coord n 0 = None)"
  by (simp add: create4D_nonpositive createIndra_nonpositive create4D_one createIndra_one
      eval_nat_numeral wave_coord_def indra_coord_def fdiv_def)

theorem lattice_small_unchecked_witness:
  "create4DWaveParticles 0 = [] \<and> createIndrasNetParticles 0 = [] \<and>
   create4DWaveParticles 1 = [None, None, None, None] \<and>
   createIndrasNetParticles 1 = [None, None, None]"
  using lattice_small_unchecked [of 0] lattice_small_unchecked [of 1]
  by (simp add: eval_nat_numeral)

section \<open>Resetting the rotation\<close>

lemma fromArray_createIdentityMatrix:
  "Matrix4_fromArray createIdentityMatrix =
     Inr (map JNum [1, 0, 0, 0, 0, 1, 0, 0, 0, 0, 1, 0, 0, 0, 0, 1])"
  by (simp add: Matrix4_fromArray_def createIdentityMatrix_def upt_rec js_index_def)

lemma update_matrix_uniform_identity:
  "js_get (params s) name = createIdentityMatrix \<Longrightarrow>
   update_matrix_uniform name s =
     Normal (if material_uniforms s name = None then s
             else s\<lparr>material_uniforms := (material_uniforms s)
                    (name \<mapsto> JArr (map JNum [1, 0, 0, 0, 0, 1, 0, 0, 0, 0, 1, 0, 0, 0, 0, 1]))\<rparr>)"
  by (simp add: update_matrix_uniform_def fromArray_createIdentityMatrix)

text \<open>
  C10. \<open>resetRotation\<close> completes normally; afterwards both angles are zero, both
  matrices are the identity array, the interpolation fraction is 0.5, and every other
  property of \<open>params\<close> is as before (as are the time, the light positions and every
  uniform but those of the two matrices and the interpolation fraction).
\<close>

theorem resetRotation_frame:
  "\<exists>s'. resetRotation s = Normal s' \<and>
     angleXY s' = 0 \<and> angleZW s' = 0 \<and>
     params s' ''matrix1'' = Some createIdentityMatrix \<and>
     params s' ''matrix2'' = Some createIdentityMatrix \<and>
     params s' ''interpolation'' = Some (JNum 0.5) \<and>
     (\<forall>k. k \<notin> {''matrix1'', ''matrix2'', ''interpolation''} \<longrightarrow>
          params s' k = params s k \<and> material_uniforms s' k = material_uniforms s k) \<and>
     time s' = time s \<and> lightPositions s' = lightPositions s"
  by (simp add: resetRotation_def Let_def update_transform_uniforms_def and_then_def
      update_matrix_uniform_identity update_scalar_uniform_def js_get_def)

lemma initial_uniforms:
  "material_uniforms initial_state ''matrix1'' \<noteq> None"
  by (simp add: initial_state_def wave_uniforms_def initial_params_def js_get_def
      fromArray_createIdentityMatrix)

lemma spun_state_values:
  "angleXY spun_state = 1.5 \<and> time spun_state = 4 \<and>
   params spun_state ''interpolation'' = Some (JNum 1) \<and>
   params spun_state ''gridSize'' = Some (JNum 10) \<and>
   params spun_state ''rotationSpeedXY'' = Some (JNum 0.5)"
  by (simp add: spun_state_def initial_params_def)

theorem resetRotation_frame_witness:
  "\<exists>s'. resetRotation spun_state = Normal s' \<and>
     angleXY spun_state = 1.5 \<and> angleXY s' = 0 \<and>
     params spun_state ''interpolation'' = Some (JNum 1) \<and>
     params s' ''interpolation'' = Some (JNum 0.5) \<and>
     params s' ''gridSize'' = Some (JNum 10) \<and>
     params s' ''rotationSpeedXY'' = Some (JNum 0.5) \<and>
     time s' = 4"
proof -
  from resetRotation_frame [of spun_state] obtain s' where
    r: "resetRotation spun_state = Normal s'" "angleXY s' = 0"
      "params s' ''interpolation'' = Some (JNum 0.5)"
      "\<forall>k. k \<notin> {''matrix1'', ''matrix2'', ''interpolation''} \<longrightarrow>
          params s' k = params spun_state k \<and>
          material_uniforms s' k = material_uniforms spun_state k"
      "time s' = time spun_state"
    by blast
  have g: "''gridSize'' \<notin> {''matrix1'', ''matrix2'', ''interpolation''}"
    and h: "''rotationSpeedXY'' \<notin> {''matrix1'', ''matrix2'', ''interpolation''}"
    by simp_all
  note kept = r(4) [rule_format, OF g, THEN conjunct1] r(4) [rule_format, OF h, THEN conjunct1]
  from r(1,2,3,5) kept spun_state_values show ?thesis
    by (intro exI [of _ s']) (simp only: simp_thms)
qed

section \<open>Importing parameters: no validation\<close>

lemma fold_assign_other:
  "k \<notin> fst ` set kvs \<Longrightarrow> fold assign_property kvs p k = p k"
  by (induction kvs arbitrary: p) (auto simp add: assign_property_def)

lemma fold_assign_member:
  "distinct (map fst kvs) \<Longrightarrow> (k, v) \<in> set kvs \<Longrightarrow> k \<noteq> ''__proto__'' \<Longrightarrow>
   fold assign_property kvs p k = Some v"
proof (induction kvs arbitrary: p)
  case Nil
  then show ?case by simp
next
  case (Cons a kvs)
  show ?case
  proof (cases "a = (k, v)")
    case True
    with Cons.prems have notin: "k \<notin> fst ` set kvs" by auto
    have "fold assign_property (a # kvs) p k = fold assign_property kvs (assign_property a p) k"
      by simp
    also from notin have "\<dots> = assign_property a p k"
      by (rule fold_assign_other)
    also from True Cons.prems have "\<dots> = Some v"
      by (simp add: assign_property_def)
    finally show ?thesis .
  next
    case False
    with Cons show ?thesis by auto
  qed
qed

lemma params_update_matrix_uniform:
  "params (state_of (update_matrix_uniform name s)) = params s"
  by (simp add: update_matrix_uniform_def split: sum.splits)

lemma params_update_scalar_uniform:
  "params (state_of (update_scalar_uniform name s)) = params s"
  by (simp add: update_scalar_uniform_def)

lemma params_and_then:
  "(\<And>s. params (state_of (f s)) = params s) \<Longrightarrow>
   params (state_of (and_then c f)) = params (state_of c)"
  by (cases c) (simp_all add: and_then_def)

lemma params_update_transform_uniforms:
  "params (state_of (update_transform_uniforms s)) = params s"
  unfolding update_transform_uniforms_def
  by (simp add: params_and_then params_update_matrix_uniform params_update_scalar_uniform)

lemma params_recreateParticleSystem:
  "params (state_of (recreateParticleSystem s)) = params s"
  by (simp add: recreateParticleSystem_def split: sum.splits)

lemma params_gui_step:
  "params (state_of (gui_step g s)) = params s"
  by (simp add: gui_step_def split: option.splits)

lemma import_state:
  "snd (importParameters_onload g parsed s) =
     (case parsed of
        None \<Rightarrow> s
      | Some d \<Rightarrow>
          state_of (and_then (update_transform_uniforms (s\<lparr>params := Object_assign (params s) d\<rparr>))
            (\<lambda>s. and_then (recreateParticleSystem s) (gui_step g))))"
  by (simp add: importParameters_onload_def Let_def split: option.splits completion.splits)

lemma import_params:
  "params (snd (importParameters_onload g (Some d) s)) = Object_assign (params s) d"
  by (simp add: import_state params_and_then params_recreateParticleSystem
      params_update_transform_uniforms params_gui_step)

lemma fromArray_null: "Matrix4_fromArray JNull = Inl TypeError"
  by (simp add: Matrix4_fromArray_def upt_rec js_index_def)

lemma update_matrix_uniform_null:
  "material_uniforms s name \<noteq> None \<Longrightarrow> js_get (params s) name = JNull \<Longrightarrow>
   update_matrix_uniform name s = Throws TypeError s"
  by (auto simp add: update_matrix_uniform_def fromArray_null)

lemma import_null_matrix:
  "material_uniforms s ''matrix1'' \<noteq> None \<Longrightarrow>
   js_get (Object_assign (params s) d) ''matrix1'' = JNull \<Longrightarrow>
   importParameters_onload g (Some d) s =
     (ErrorImporting TypeError, s\<lparr>params := Object_assign (params s) d\<rparr>)"
  by (simp add: importParameters_onload_def Let_def update_transform_uniforms_def
      update_matrix_uniform_null and_then_def)

lemma Object_assign_bad_document:
  "Object_assign p bad_document = p(''gridSize'' \<mapsto> JNum 5, ''matrix1'' \<mapsto> JNull)"
  by (simp add: Object_assign_def bad_document_def own_properties_def assign_property_def)

lemma import_bad_document:
  "importParameters_onload gui_accepts (Some bad_document) initial_state =
     (ErrorImporting TypeError,
      initial_state\<lparr>params := initial_params(''gridSize'' \<mapsto> JNum 5, ''matrix1'' \<mapsto> JNull)\<rparr>)"
proof -
  have p: "params initial_state = initial_params"
    by (simp add: initial_state_def)
  have "js_get (Object_assign (params initial_state) bad_document) ''matrix1'' = JNull"
    by (simp add: Object_assign_bad_document js_get_def)
  with initial_uniforms show ?thesis
    by (simp add: import_null_matrix Object_assign_bad_document p)
qed

text \<open>
  C5, as stated, fails. The document \<open>{"gridSize": 5, "matrix1": null}\<close> is reported
  as an import error (reading the matrix throws), and yet \<open>params.gridSize\<close> has
  changed from 10 to 5: the document has been applied in part.
\<close>

theorem import_partial_counterexample:
  "fst (importParameters_onload gui_accepts (Some bad_document) initial_state) = ErrorImporting TypeError \<and>
   params (snd (importParameters_onload gui_accepts (Some bad_document) initial_state)) ''gridSize'' =
     Some (JNum 5) \<and>
   params initial_state ''gridSize'' = Some (JNum 10)"
proof -
  have "params initial_state ''gridSize'' = Some (JNum 10)"
    by (simp add: initial_state_def initial_params_def)
  then show ?thesis
    by (simp add: import_bad_document)
qed

text \<open>
  C5, amended. A text that is not JSON leaves the state unchanged and is reported as an
  error. A text that parses is never validated: every own property of the parsed value is
  assigned to \<open>params\<close> first, and \<open>params\<close> stays so whether or not a later step
  throws; a member of a parsed object is written under its key, and keys outside the
  object are untouched. When the 4D wave material is live and the assigned \<open>matrix1\<close>
  is \<open>null\<close>, the error is reported with the parameters already changed.
\<close>

theorem import_unvalidated:
  "importParameters_onload g None s = (ErrorImporting SyntaxError, s) \<and>
   params (snd (importParameters_onload g (Some d) s)) = Object_assign (params s) d \<and>
   (distinct (map fst kvs) \<longrightarrow> (k, v) \<in> set kvs \<longrightarrow> k \<noteq> ''__proto__'' \<longrightarrow>
      params (snd (importParameters_onload g (Some (JObj kvs)) s)) k = Some v) \<and>
   (k' \<notin> fst ` set kvs \<longrightarrow>
      params (snd (importParameters_onload g (Some (JObj kvs)) s)) k' = params s k') \<and>
   (material_uniforms s ''matrix1'' \<noteq> None \<longrightarrow>
    js_get (Object_assign (params s) d) ''matrix1'' = JNull \<longrightarrow>
      importParameters_onload g (Some d) s =
        (ErrorImporting TypeError, s\<lparr>params := Object_assign (params s) d\<rparr>))"
proof -
  have a: "importParameters_onload g None s = (ErrorImporting SyntaxError, s)"
    by (simp add: importParameters_onload_def)
  have b: "Object_assign (params s) (JObj kvs) = fold assign_property kvs (params s)"
    by (simp add: Object_assign_def own_properties_def)
  show ?thesis
    using a import_null_matrix [of s d g]
    by (simp add: import_params b fold_assign_member fold_assign_other)
qed

theorem import_unvalidated_witness:
  "importParameters_onload gui_accepts None initial_state = (ErrorImporting SyntaxError, initial_state) \<and>
   params (snd (importParameters_onload gui_accepts (Some bad_document) initial_state)) ''gridSize'' =
     Some (JNum 5) \<and>
   params (snd (importParameters_onload gui_accepts (Some bad_document) initial_state)) ''spread'' =
     Some (JNum 3) \<and>
   fst (importParameters_onload gui_accepts (Some bad_document) initial_state) = ErrorImporting TypeError"
proof -
  let ?kvs = "[(''gridSize'', JNum 5), (''matrix1'', JNull)]"
  note t = import_unvalidated [of gui_accepts initial_state bad_document ?kvs
      "''gridSize''" "JNum 5" "''spread''"]
  have d: "JObj ?kvs = bad_document"
    by (simp add: bad_document_def)
  have h1: "distinct (map fst ?kvs)" by simp
  have h2: "(''gridSize'', JNum 5) \<in> set ?kvs" by simp
  have h3: "''gridSize'' \<noteq> ''__proto__''" by simp
  have h4: "''spread'' \<notin> fst ` set ?kvs" by simp
  have m: "js_get (Object_assign (params initial_state) bad_document) ''matrix1'' = JNull"
    by (simp add: Object_assign_bad_document js_get_def)
  have s: "params initial_state ''spread'' = Some (JNum 3)"
    by (simp add: initial_state_def initial_params_def)
  from t have c1: "importParameters_onload gui_accepts None initial_state =
      (ErrorImporting SyntaxError, initial_state)"
    by blast
  from t h1 h2 h3 have c2:
    "params (snd (importParameters_onload gui_accepts (Some (JObj ?kvs)) initial_state)) ''gridSize'' =
       Some (JNum 5)"
    by blast
  from t h4 have c3:
    "params (snd (importParameters_onload gui_accepts (Some (JObj ?kvs)) initial_state)) ''spread'' =
       params initial_state ''spread''"
    by blast
  from t m initial_uniforms have
    "importParameters_onload gui_accepts (Some bad_document) initial_state =
       (ErrorImporting TypeError,
        initial_state\<lparr>params := Object_assign (params initial_state) bad_document\<rparr>)"
    by blast
  then have c4:
    "fst (importParameters_onload gui_accepts (Some bad_document) initial_state) = ErrorImporting TypeError"
    by simp
  from c1 c2 c3 c4 show ?thesis
    unfolding d s by blast
qed

section \<open>The reflection model without light\<close>
























end
